theory Spec2Isabelle
  imports Complex_Main "HOL-Library.Product_Lexorder" "HOL-Library.Option_ord"
begin

section \<open>RentalXpert: the Flask application of app.py\<close>

text \<open>
  The application is a set of route handlers over a relational store (SQLAlchemy on
  SQLite) and a signed session cookie. A handler is modelled as a function from the
  request and the world (store and session) to a response and the new world. An
  exception that no handler catches ends the request on the framework's failure page;
  the pending insert is rolled back, so the world is the one before the request.
\<close>

subsection \<open>Column types\<close>

text \<open>
  A \<open>db.Date\<close> is a calendar date, compared as (year, month, day); a
  \<open>db.DateTime\<close> is a UTC instant. A \<open>db.Float\<close> is modelled as a real number:
  no property below depends on rounding. A nullable column is an \<open>option\<close>;
  SQLite orders NULL before every value, as \<open>None\<close> is below every \<open>Some\<close>.
\<close>

type_synonym date = "nat \<times> nat \<times> nat"
type_synonym datetime = nat

subsection \<open>Database models\<close>

text \<open>
  One record per \<open>db.Model\<close> class, one field per column, in the order of the source.
  Field names carry the table's prefix because record fields share one name space.
  The classes Message and Document are never read or written by a route and are left out.
\<close>

record owner =
  o_id :: int
  o_username :: "string option"
  o_email :: "string option"
  o_password_hash :: "string option"
  o_phone :: "string option"
  o_created_at :: "datetime option"

record property =
  p_id :: int
  p_name :: "string option"
  p_address :: "string option"
  p_property_type :: "string option"
  p_bedrooms :: "int option"
  p_bathrooms :: "int option"
  p_area_sqft :: "real option"
  p_monthly_rent :: "real option"
  p_owner_id :: "int option"
  p_created_at :: "datetime option"

record tenant =
  t_id :: int
  t_name :: "string option"
  t_email :: "string option"
  t_phone :: "string option"
  t_whatsapp_number :: "string option"
  t_lease_start :: "date option"
  t_lease_end :: "date option"
  t_security_deposit :: "real option"
  t_property_id :: "int option"
  t_is_active :: "bool option"
  t_created_at :: "datetime option"

record payment =
  pay_id :: int
  pay_property_id :: "int option"
  pay_tenant_id :: "int option"
  pay_amount :: "real option"
  pay_payment_date :: "date option"
  pay_payment_method :: "string option"
  pay_payment_type :: "string option"
  pay_status :: "string option"
  pay_notes :: "string option"

record expense =
  e_id :: int
  e_property_id :: "int option"
  e_category :: "string option"
  e_description :: "string option"
  e_amount :: "real option"
  e_expense_date :: "date option"
  e_vendor :: "string option"
  e_receipt_url :: "string option"

record maintenance_request =
  m_id :: int
  m_property_id :: "int option"
  m_tenant_id :: "int option"
  m_issue_type :: "string option"
  m_description :: "string option"
  m_priority :: "string option"
  m_status :: "string option"
  m_created_at :: "datetime option"
  m_resolved_at :: "datetime option"

text \<open>The store: one list of rows per table, in insertion order.\<close>

record store =
  owner_table :: "owner list"
  property_table :: "property list"
  tenant_table :: "tenant list"
  payment_table :: "payment list"
  expense_table :: "expense list"
  maintenance_request_table :: "maintenance_request list"

subsection \<open>Session, request, response\<close>

text \<open>
  The Flask session holds the identity that \<open>login_user\<close> stored (\<open>_user_id\<close>), the
  \<open>dark_mode\<close> preference and the queue of flashed messages, each a pair of category
  and text. A key that is absent from the session is \<open>None\<close>.
\<close>

record session =
  user_id :: "int option"
  dark_mode :: "bool option"
  flashes :: "(string \<times> string) list"

record world =
  db :: store
  sess :: session

datatype http_method = GET | POST

text \<open>The value \<open>request.json\<close> parses to.\<close>

datatype json =
    JNull
  | JBool bool
  | JInt int
  | JFloat real
  | JStr string
  | JList "json list"
  | JDict "(string \<times> json) list"

text \<open>
  A request: its method, the submitted form (a multi-dict whose \<open>get\<close> takes the first
  value of a key), the parsed JSON body (\<open>None\<close> when the body is not JSON) and the
  Referer header.
\<close>

record request =
  req_method :: http_method
  form :: "(string \<times> string) list"
  json_body :: "json option"
  referrer :: "string option"

datatype py_exception =
  ValueError | TypeError | AttributeError | IntegrityError | OverflowError

record dashboard_stats =
  total_properties :: nat
  active_tenants :: nat
  monthly_income :: real
  recent_payments :: "payment list"
  pending_maintenance :: nat

datatype template_context =
    No_context
  | Properties_context "property list"
  | Tenants_context "tenant list"
  | Payments_context "payment list"
  | Expenses_context "expense list"
  | Dashboard_context dashboard_stats

text \<open>
  What a handler answers: a redirect to a path, a rendered template with its context,
  a JSON document, an HTTP error raised by the framework for a body that is not JSON,
  or the failure page (HTTP 500) of an exception that nothing caught.
\<close>

datatype response =
    Redirect string
  | Render_template string template_context
  | Jsonify "(string \<times> string) list"
  | Bad_request
  | Unhandled py_exception

subsection \<open>Builtins and library calls\<close>

text \<open>
  The conversions of the Python runtime and of Werkzeug are not code of the application;
  the handlers take them as a parameter. \<open>int_of_str s\<close> is \<open>int(s)\<close> on a string,
  \<open>float_of_str s\<close> is \<open>float(s)\<close>, \<open>strptime_date s\<close> is
  \<open>datetime.strptime(s, '%Y-%m-%d').date()\<close>; each is \<open>None\<close> where Python raises
  ValueError. \<open>generate_password_hash\<close> is the salted hash of one call, \<open>utcnow\<close>
  the clock reading of the request and \<open>utcnow_date\<close> its calendar date.
\<close>

record pyenv =
  int_of_str :: "string \<Rightarrow> int option"
  float_of_str :: "string \<Rightarrow> real option"
  strptime_date :: "string \<Rightarrow> date option"
  generate_password_hash :: "string \<Rightarrow> string"
  utcnow :: datetime
  utcnow_date :: date

text \<open>What \<open>request.form.get\<close> returns: a string, the integer default, or None.\<close>

datatype pyval = PStr string | PInt int | PNone

definition form_get :: "request \<Rightarrow> string \<Rightarrow> string option" where
  "form_get req k = map_of (form req) k"

definition form_get_default0 :: "request \<Rightarrow> string \<Rightarrow> pyval" where
  "form_get_default0 req k = (case form_get req k of Some s \<Rightarrow> PStr s | None \<Rightarrow> PInt 0)"

definition form_get_none :: "request \<Rightarrow> string \<Rightarrow> pyval" where
  "form_get_none req k = (case form_get req k of Some s \<Rightarrow> PStr s | None \<Rightarrow> PNone)"

fun py_int :: "pyenv \<Rightarrow> pyval \<Rightarrow> py_exception + int" where
  "py_int env (PStr s) = (case int_of_str env s of Some n \<Rightarrow> Inr n | None \<Rightarrow> Inl ValueError)"
| "py_int env (PInt n) = Inr n"
| "py_int env PNone = Inl TypeError"

fun py_float :: "pyenv \<Rightarrow> pyval \<Rightarrow> py_exception + real" where
  "py_float env (PStr s) = (case float_of_str env s of Some x \<Rightarrow> Inr x | None \<Rightarrow> Inl ValueError)"
| "py_float env (PInt n) = Inr (of_int n)"
| "py_float env PNone = Inl TypeError"

fun py_strptime :: "pyenv \<Rightarrow> pyval \<Rightarrow> py_exception + date" where
  "py_strptime env (PStr s) = (case strptime_date env s of Some d \<Rightarrow> Inr d | None \<Rightarrow> Inl ValueError)"
| "py_strptime env (PInt n) = Inl TypeError"
| "py_strptime env PNone = Inl TypeError"

text \<open>Sequencing of calls that may raise: the first exception ends the evaluation.\<close>

fun raising :: "py_exception + 'a \<Rightarrow> ('a \<Rightarrow> py_exception + 'b) \<Rightarrow> py_exception + 'b" where
  "raising (Inl e) f = Inl e"
| "raising (Inr x) f = f x"

subsection \<open>Session operations\<close>

text \<open>\<open>flash(message, category)\<close> appends to the session's queue.\<close>

definition flash :: "string \<Rightarrow> string \<Rightarrow> world \<Rightarrow> world" where
  "flash message category w = w\<lparr>sess := (sess w)\<lparr>flashes := flashes (sess w) @ [(category, message)]\<rparr>\<rparr>"

text \<open>
  \<open>load_user\<close> and Flask-Login's \<open>current_user\<close>: the owner whose primary key the
  session stores, or nobody.
\<close>

definition load_user :: "store \<Rightarrow> int \<Rightarrow> owner option" where
  "load_user d uid = find (\<lambda>row. o_id row = uid) (owner_table d)"

definition current_user :: "world \<Rightarrow> owner option" where
  "current_user w = (case user_id (sess w) of None \<Rightarrow> None | Some uid \<Rightarrow> load_user (db w) uid)"

text \<open>Flask-Login's \<open>logout_user\<close> removes the identity from the session.\<close>

definition logout_user :: "world \<Rightarrow> world" where
  "logout_user w = w\<lparr>sess := (sess w)\<lparr>user_id := None\<rparr>\<rparr>"

text \<open>
  \<open>@login_required\<close>: an unauthenticated request never reaches the view. With
  \<open>login_view = 'login'\<close> Flask-Login flashes its login message and redirects to the
  login page (the \<open>next\<close> parameter of the redirect is left out).
\<close>

definition unauthorized :: "world \<Rightarrow> response \<times> world" where
  "unauthorized w = (Redirect ''/login'', flash ''Please log in to access this page.'' ''message'' w)"

definition login_required :: "(owner \<Rightarrow> world \<Rightarrow> response \<times> world) \<Rightarrow> world \<Rightarrow> response \<times> world" where
  "login_required view w = (case current_user w of None \<Rightarrow> unauthorized w | Some u \<Rightarrow> view u w)"

definition inject_theme :: "world \<Rightarrow> bool" where
  "inject_theme w = (case dark_mode (sess w) of None \<Rightarrow> False | Some b \<Rightarrow> b)"

text \<open>
  \<open>request.referrer or url_for('dashboard')\<close>: an absent or empty Referer gives the
  dashboard.
\<close>

definition toggle_dark_mode :: "request \<Rightarrow> world \<Rightarrow> response \<times> world" where
  "toggle_dark_mode req w =
     (let w' = w\<lparr>sess := (sess w)\<lparr>dark_mode := Some (\<not> inject_theme w)\<rparr>\<rparr>
      in (Redirect (case referrer req of None \<Rightarrow> ''/dashboard''
                    | Some r \<Rightarrow> if r = [] then ''/dashboard'' else r), w'))"

definition logout :: "world \<Rightarrow> response \<times> world" where
  "logout = login_required (\<lambda>u w. (Redirect ''/'', logout_user w))"

subsection \<open>Queries\<close>

text \<open>
  \<open>query(T).join(Property)\<close> joins on the foreign key \<open>T.property_id = property.id\<close>;
  a NULL foreign key joins with nothing. The query returns the rows of \<open>T\<close> whose
  joined Property passes the filter.
\<close>

definition join_property :: "('r \<Rightarrow> int option) \<Rightarrow> 'r list \<Rightarrow> property list \<Rightarrow> ('r \<times> property) list" where
  "join_property fk rows props = [(r, p). r \<leftarrow> rows, p \<leftarrow> props, fk r = Some (p_id p)]"

definition owned_rows :: "('r \<Rightarrow> int option) \<Rightarrow> 'r list \<Rightarrow> store \<Rightarrow> int \<Rightarrow> 'r list" where
  "owned_rows fk rows d uid =
     map fst (filter (\<lambda>(r, p). p_owner_id p = Some uid) (join_property fk rows (property_table d)))"

text \<open>\<open>Property.query.filter_by(owner_id=current_user.id)\<close>.\<close>

definition owner_properties :: "store \<Rightarrow> int \<Rightarrow> property list" where
  "owner_properties d uid = filter (\<lambda>p. p_owner_id p = Some uid) (property_table d)"

text \<open>
  \<open>order_by(col.desc())\<close>: descending in the column, NULL last. SQL leaves the order
  of rows with equal keys open; the model keeps them in the order of the table, as
  SQLite's sorter does on a scan of the table.
\<close>

definition order_by_desc :: "('r \<Rightarrow> 'k::linorder) \<Rightarrow> 'r list \<Rightarrow> 'r list" where
  "order_by_desc key rows = rev (sort_key key (rev rows))"

text \<open>\<open>func.sum\<close> skips NULL and is NULL over no value; \<open>x or 0\<close> is 0 for None and for 0.0.\<close>

definition func_sum :: "real option list \<Rightarrow> real option" where
  "func_sum vs = (case [v. Some v \<leftarrow> vs] of [] \<Rightarrow> None | x # xs \<Rightarrow> Some (sum_list (x # xs)))"

definition or_0 :: "real option \<Rightarrow> real" where
  "or_0 v = (case v of None \<Rightarrow> 0 | Some x \<Rightarrow> if x = 0 then 0 else x)"

subsection \<open>Inserts\<close>

text \<open>
  SQLite gives a new row of an INTEGER PRIMARY KEY table the largest key plus one, and
  1 in an empty table (it turns to unused keys picked at random only once the largest
  key is \<open>2^63 - 1\<close>, which no store considered here reaches).
\<close>

definition next_id :: "int list \<Rightarrow> int" where
  "next_id ids = (case ids of [] \<Rightarrow> 1 | i # rest \<Rightarrow> fold max rest i + 1)"

text \<open>
  \<open>db.session.add(row); db.session.commit()\<close>: the INSERT sets the primary key and the
  defaults of the columns the handler left unset, and raises IntegrityError when a
  \<open>nullable=False\<close> or \<open>unique=True\<close> column is violated. SQLite does not enforce
  foreign keys unless asked to, and the application does not ask.

  A \<open>db.Integer\<close> column holds a signed 64-bit integer. Python's integers are
  unbounded, and the driver raises OverflowError when it binds one outside that range
  to the INSERT, before the statement runs and so before any constraint is checked;
  NULL binds to every column. The integers a handler converts from the request are
  checked; \<open>owner_id\<close> is the key of a stored owner and is in range.
\<close>

definition sqlite_integer :: "int \<Rightarrow> bool" where
  "sqlite_integer n = (- (2 ^ 63) \<le> n \<and> n < 2 ^ 63)"

definition binds :: "int option \<Rightarrow> bool" where
  "binds c = (case c of None \<Rightarrow> True | Some n \<Rightarrow> sqlite_integer n)"

definition default_to :: "'a \<Rightarrow> 'a option \<Rightarrow> 'a option" where
  "default_to v c = (case c of None \<Rightarrow> Some v | Some x \<Rightarrow> Some x)"

definition commit_owner :: "pyenv \<Rightarrow> owner \<Rightarrow> store \<Rightarrow> py_exception + store" where
  "commit_owner env row d =
     (if o_username row = None \<or> o_email row = None
         \<or> o_username row \<in> set (map o_username (owner_table d))
         \<or> o_email row \<in> set (map o_email (owner_table d))
      then Inl IntegrityError
      else Inr (d\<lparr>owner_table := owner_table d @
             [row\<lparr>o_id := next_id (map o_id (owner_table d)),
                  o_created_at := default_to (utcnow env) (o_created_at row)\<rparr>]\<rparr>))"

definition commit_property :: "pyenv \<Rightarrow> property \<Rightarrow> store \<Rightarrow> py_exception + store" where
  "commit_property env row d =
     (if \<not> binds (p_bedrooms row) \<or> \<not> binds (p_bathrooms row) then Inl OverflowError
      else if p_name row = None then Inl IntegrityError
      else Inr (d\<lparr>property_table := property_table d @
             [row\<lparr>p_id := next_id (map p_id (property_table d)),
                  p_created_at := default_to (utcnow env) (p_created_at row)\<rparr>]\<rparr>))"

definition commit_tenant :: "pyenv \<Rightarrow> tenant \<Rightarrow> store \<Rightarrow> py_exception + store" where
  "commit_tenant env row d =
     (if \<not> binds (t_property_id row) then Inl OverflowError
      else if t_name row = None \<or> t_phone row = None then Inl IntegrityError
      else Inr (d\<lparr>tenant_table := tenant_table d @
             [row\<lparr>t_id := next_id (map t_id (tenant_table d)),
                  t_is_active := default_to True (t_is_active row),
                  t_created_at := default_to (utcnow env) (t_created_at row)\<rparr>]\<rparr>))"

definition commit_payment :: "pyenv \<Rightarrow> payment \<Rightarrow> store \<Rightarrow> py_exception + store" where
  "commit_payment env row d =
     (if \<not> binds (pay_property_id row) \<or> \<not> binds (pay_tenant_id row) then Inl OverflowError
      else if pay_amount row = None then Inl IntegrityError
      else Inr (d\<lparr>payment_table := payment_table d @
             [row\<lparr>pay_id := next_id (map pay_id (payment_table d)),
                  pay_payment_date := default_to (utcnow_date env) (pay_payment_date row),
                  pay_status := default_to ''completed'' (pay_status row)\<rparr>]\<rparr>))"

text \<open>
  The end of a POST handler: the constructor's arguments or the commit may have raised,
  and then nothing is stored or flashed; otherwise the row is stored, the message is
  flashed and the browser is redirected.
\<close>

definition finish_post :: "py_exception + store \<Rightarrow> string \<Rightarrow> string \<Rightarrow> world \<Rightarrow> response \<times> world" where
  "finish_post result message target w =
     (case result of
        Inl e \<Rightarrow> (Unhandled e, w)
      | Inr d \<Rightarrow> (Redirect target, flash message ''success'' (w\<lparr>db := d\<rparr>)))"

subsection \<open>Routes\<close>

text \<open>
  A route that accepts one method only is modelled by its view function; the routes that
  accept GET and POST branch on \<open>request.method\<close> as the source does.
\<close>

definition index :: "world \<Rightarrow> response \<times> world" where
  "index w = (case current_user w of
                Some u \<Rightarrow> (Redirect ''/dashboard'', w)
              | None \<Rightarrow> (Render_template ''index.html'' No_context, w))"

text \<open>
  \<open>filter_by(email=email)\<close> compares with \<open>=\<close> for a string and with IS NULL for None;
  equality on \<open>option\<close> is both. \<open>generate_password_hash(None)\<close> raises (AttributeError
  in current Werkzeug).
\<close>

definition register :: "pyenv \<Rightarrow> request \<Rightarrow> world \<Rightarrow> response \<times> world" where
  "register env req w =
     (if req_method req = POST then
        (let username = form_get req ''username'';
             email = form_get req ''email'';
             password = form_get req ''password'';
             phone = form_get req ''phone''
         in if find (\<lambda>row. o_email row = email) (owner_table (db w)) \<noteq> None
            then (Redirect ''/register'', flash ''Email already registered'' ''danger'' w)
            else finish_post
                   (raising (case password of None \<Rightarrow> Inl AttributeError
                             | Some pw \<Rightarrow> Inr (generate_password_hash env pw))
                      (\<lambda>hashed_password.
                         commit_owner env
                           \<lparr>o_id = 0, o_username = username, o_email = email,
                            o_password_hash = Some hashed_password, o_phone = phone,
                            o_created_at = None\<rparr> (db w)))
                   ''Registration successful! Please login.'' ''/login'' w)
      else (Render_template ''register.html'' No_context, w))"

definition dashboard :: "world \<Rightarrow> response \<times> world" where
  "dashboard = login_required (\<lambda>u w.
     (let d = db w; uid = o_id u;
          total = length (owner_properties d uid);
          active = length (filter (\<lambda>t. t_is_active t = Some True)
                             (owned_rows t_property_id (tenant_table d) d uid));
          income = or_0 (func_sum (map p_monthly_rent (owner_properties d uid)));
          recent = take 5 (order_by_desc pay_payment_date
                             (owned_rows pay_property_id (payment_table d) d uid));
          pending = length (filter (\<lambda>m. m_status m \<noteq> None \<and> m_status m \<noteq> Some ''completed'')
                              (owned_rows m_property_id (maintenance_request_table d) d uid))
      in (Render_template ''dashboard.html''
            (Dashboard_context \<lparr>total_properties = total, active_tenants = active,
               monthly_income = income, recent_payments = recent,
               pending_maintenance = pending\<rparr>), w)))"

definition properties :: "world \<Rightarrow> response \<times> world" where
  "properties = login_required (\<lambda>u w.
     (Render_template ''properties.html'' (Properties_context (owner_properties (db w) (o_id u))), w))"

definition new_property :: "pyenv \<Rightarrow> request \<Rightarrow> owner \<Rightarrow> py_exception + property" where
  "new_property env req u =
     raising (py_int env (form_get_default0 req ''bedrooms'')) (\<lambda>bedrooms.
     raising (py_int env (form_get_default0 req ''bathrooms'')) (\<lambda>bathrooms.
     raising (py_float env (form_get_default0 req ''area_sqft'')) (\<lambda>area_sqft.
     raising (py_float env (form_get_default0 req ''monthly_rent'')) (\<lambda>monthly_rent.
       Inr \<lparr>p_id = 0, p_name = form_get req ''name'', p_address = form_get req ''address'',
            p_property_type = form_get req ''property_type'',
            p_bedrooms = Some bedrooms, p_bathrooms = Some bathrooms,
            p_area_sqft = Some area_sqft, p_monthly_rent = Some monthly_rent,
            p_owner_id = Some (o_id u), p_created_at = None\<rparr>))))"

definition add_property :: "pyenv \<Rightarrow> request \<Rightarrow> world \<Rightarrow> response \<times> world" where
  "add_property env req = login_required (\<lambda>u w.
     if req_method req = POST then
       finish_post (raising (new_property env req u) (\<lambda>row. commit_property env row (db w)))
         ''Property added successfully!'' ''/properties'' w
     else (Render_template ''add_property.html'' No_context, w))"

definition tenants :: "world \<Rightarrow> response \<times> world" where
  "tenants = login_required (\<lambda>u w.
     (Render_template ''tenants.html''
        (Tenants_context (owned_rows t_property_id (tenant_table (db w)) (db w) (o_id u))), w))"

definition new_tenant :: "pyenv \<Rightarrow> request \<Rightarrow> py_exception + tenant" where
  "new_tenant env req =
     raising (py_strptime env (form_get_none req ''lease_start'')) (\<lambda>lease_start.
     raising (py_strptime env (form_get_none req ''lease_end'')) (\<lambda>lease_end.
     raising (py_float env (form_get_default0 req ''security_deposit'')) (\<lambda>security_deposit.
     raising (py_int env (form_get_none req ''property_id'')) (\<lambda>property_id.
       Inr \<lparr>t_id = 0, t_name = form_get req ''name'', t_email = form_get req ''email'',
            t_phone = form_get req ''phone'',
            t_whatsapp_number = form_get req ''whatsapp_number'',
            t_lease_start = Some lease_start, t_lease_end = Some lease_end,
            t_security_deposit = Some security_deposit,
            t_property_id = Some property_id, t_is_active = None,
            t_created_at = None\<rparr>))))"

definition add_tenant :: "pyenv \<Rightarrow> request \<Rightarrow> world \<Rightarrow> response \<times> world" where
  "add_tenant env req = login_required (\<lambda>u w.
     if req_method req = POST then
       finish_post (raising (new_tenant env req) (\<lambda>row. commit_tenant env row (db w)))
         ''Tenant added successfully!'' ''/tenants'' w
     else (Render_template ''add_tenant.html''
             (Properties_context (owner_properties (db w) (o_id u))), w))"

definition payments :: "world \<Rightarrow> response \<times> world" where
  "payments = login_required (\<lambda>u w.
     (Render_template ''payments.html''
        (Payments_context (order_by_desc pay_payment_date
           (owned_rows pay_property_id (payment_table (db w)) (db w) (o_id u)))), w))"

definition new_payment :: "pyenv \<Rightarrow> request \<Rightarrow> py_exception + payment" where
  "new_payment env req =
     raising (py_int env (form_get_none req ''property_id'')) (\<lambda>property_id.
     raising (py_int env (form_get_none req ''tenant_id'')) (\<lambda>tenant_id.
     raising (py_float env (form_get_none req ''amount'')) (\<lambda>amount.
     raising (py_strptime env (form_get_none req ''payment_date'')) (\<lambda>payment_date.
       Inr \<lparr>pay_id = 0, pay_property_id = Some property_id, pay_tenant_id = Some tenant_id,
            pay_amount = Some amount, pay_payment_date = Some payment_date,
            pay_payment_method = form_get req ''payment_method'',
            pay_payment_type = form_get req ''payment_type'',
            pay_status = None, pay_notes = form_get req ''notes''\<rparr>))))"

definition add_payment :: "pyenv \<Rightarrow> request \<Rightarrow> world \<Rightarrow> response \<times> world" where
  "add_payment env req = login_required (\<lambda>u w.
     if req_method req = POST then
       finish_post (raising (new_payment env req) (\<lambda>row. commit_payment env row (db w)))
         ''Payment recorded successfully!'' ''/payments'' w
     else (Render_template ''add_payment.html''
             (Properties_context (owner_properties (db w) (o_id u))), w))"

definition expenses :: "world \<Rightarrow> response \<times> world" where
  "expenses = login_required (\<lambda>u w.
     (Render_template ''expenses.html''
        (Expenses_context (order_by_desc e_expense_date
           (owned_rows e_property_id (expense_table (db w)) (db w) (o_id u)))), w))"

definition reports :: "world \<Rightarrow> response \<times> world" where
  "reports = login_required (\<lambda>u w. (Render_template ''reports.html'' No_context, w))"

text \<open>
  \<open>request.json.get(...)\<close> needs a dict: on any other JSON value the attribute lookup
  raises AttributeError. The two values read are not used.
\<close>

definition send_whatsapp_reminder :: "request \<Rightarrow> world \<Rightarrow> response \<times> world" where
  "send_whatsapp_reminder req = login_required (\<lambda>u w.
     case json_body req of
       None \<Rightarrow> (Bad_request, w)
     | Some (JDict kvs) \<Rightarrow>
         (Jsonify [(''status'', ''success''), (''message'', ''WhatsApp reminder sent'')], w)
     | Some _ \<Rightarrow> (Unhandled AttributeError, w))"

subsection \<open>Ownership of a row\<close>

text \<open>
  A row with foreign key \<open>fk\<close> is transitively owned by the owner \<open>uid\<close> when a Property
  with that primary key has \<open>owner_id = uid\<close>. The primary key of the property table is
  unique in every store the database can hold.
\<close>

definition owned_by :: "store \<Rightarrow> int \<Rightarrow> int option \<Rightarrow> bool" where
  "owned_by d uid fk = (\<exists>p \<in> set (property_table d). fk = Some (p_id p) \<and> p_owner_id p = Some uid)"

definition primary_keys_unique :: "store \<Rightarrow> bool" where
  "primary_keys_unique d = distinct (map p_id (property_table d))"

definition emails_unique :: "store \<Rightarrow> bool" where
  "emails_unique d = distinct (map o_email (owner_table d))"

text \<open>Descending order of a list of rows in a column.\<close>

definition sorted_desc :: "('r \<Rightarrow> 'k::linorder) \<Rightarrow> 'r list \<Rightarrow> bool" where
  "sorted_desc key rows = sorted_wrt (\<lambda>a b. key b \<le> key a) rows"

text \<open>
  A form field that is absent, or present with a value that the conversion accepts and,
  for an integer, that the Integer column holds.
\<close>

definition absent_or_int :: "pyenv \<Rightarrow> request \<Rightarrow> string \<Rightarrow> bool" where
  "absent_or_int env req k =
     (case form_get req k of
        None \<Rightarrow> True
      | Some s \<Rightarrow> (case int_of_str env s of None \<Rightarrow> False | Some n \<Rightarrow> sqlite_integer n))"

definition absent_or_float :: "pyenv \<Rightarrow> request \<Rightarrow> string \<Rightarrow> bool" where
  "absent_or_float env req k = (case form_get req k of None \<Rightarrow> True | Some s \<Rightarrow> float_of_str env s \<noteq> None)"

subsection \<open>An example store\<close>

text \<open>
  The conversions on the strings of the examples: each listed pair is what Python
  returns for the string, and \<open>''abc''\<close>, which Python rejects, is in no list.
\<close>

definition example_env :: pyenv where
  "example_env =
     \<lparr>int_of_str = map_of [(''1'', 1), (''2'', 2), (''3'', 3), (''4'', 4),
                           (''9223372036854775808'', 9223372036854775808)],
      float_of_str = map_of [(''1200'', 1200), (''950.5'', 9505 / 10), (''500'', 500)],
      strptime_date = map_of [(''2024-01-01'', (2024, 1, 1)), (''2024-12-31'', (2024, 12, 31))],
      generate_password_hash = (\<lambda>pw. ''scrypt:'' @ rev pw),
      utcnow = 1700000000,
      utcnow_date = (2023, 11, 14)\<rparr>"

definition example_owner :: "int \<Rightarrow> string \<Rightarrow> owner" where
  "example_owner i nm =
     \<lparr>o_id = i, o_username = Some nm, o_email = Some (nm @ ''@example.org''),
      o_password_hash = Some (''scrypt:'' @ nm), o_phone = None, o_created_at = Some 1600000000\<rparr>"

definition example_property :: "int \<Rightarrow> int \<Rightarrow> real \<Rightarrow> property" where
  "example_property i uid rent =
     \<lparr>p_id = i, p_name = Some ''Flat'', p_address = None, p_property_type = Some ''apartment'',
      p_bedrooms = Some 2, p_bathrooms = Some 1, p_area_sqft = Some 700,
      p_monthly_rent = Some rent, p_owner_id = Some uid, p_created_at = Some 1600000000\<rparr>"

definition example_tenant :: "int \<Rightarrow> int \<Rightarrow> bool \<Rightarrow> tenant" where
  "example_tenant i pid active =
     \<lparr>t_id = i, t_name = Some ''Tenant'', t_email = None, t_phone = Some ''555'',
      t_whatsapp_number = None, t_lease_start = Some (2024, 1, 1),
      t_lease_end = Some (2024, 12, 31), t_security_deposit = Some 500,
      t_property_id = Some pid, t_is_active = Some active, t_created_at = Some 1600000000\<rparr>"

definition example_payment :: "int \<Rightarrow> int \<Rightarrow> date option \<Rightarrow> payment" where
  "example_payment i pid day =
     \<lparr>pay_id = i, pay_property_id = Some pid, pay_tenant_id = None, pay_amount = Some 100,
      pay_payment_date = day, pay_payment_method = Some ''cash'', pay_payment_type = Some ''rent'',
      pay_status = Some ''completed'', pay_notes = None\<rparr>"

definition example_expense :: "int \<Rightarrow> int \<Rightarrow> date option \<Rightarrow> expense" where
  "example_expense i pid day =
     \<lparr>e_id = i, e_property_id = Some pid, e_category = Some ''taxes'', e_description = None,
      e_amount = Some 40, e_expense_date = day, e_vendor = None, e_receipt_url = None\<rparr>"

definition example_request :: "int \<Rightarrow> int \<Rightarrow> string \<Rightarrow> maintenance_request" where
  "example_request i pid st =
     \<lparr>m_id = i, m_property_id = Some pid, m_tenant_id = None, m_issue_type = Some ''plumbing'',
      m_description = None, m_priority = Some ''low'', m_status = Some st,
      m_created_at = Some 1600000000, m_resolved_at = None\<rparr>"

text \<open>
  Three owners: ann (1) owns the properties 1 and 3, bob (2) owns the property 2, cy (3)
  owns none.
\<close>

definition example_db :: store where
  "example_db =
     \<lparr>owner_table = [example_owner 1 ''ann'', example_owner 2 ''bob'', example_owner 3 ''cy''],
      property_table = [example_property 1 1 1200, example_property 2 2 900,
                        example_property 3 1 800],
      tenant_table = [example_tenant 1 1 True, example_tenant 2 2 True,
                      example_tenant 3 3 False],
      payment_table = [example_payment 1 1 (Some (2024, 1, 5)), example_payment 2 2 (Some (2024, 1, 6)),
                       example_payment 3 3 (Some (2024, 2, 5)), example_payment 4 1 None,
                       example_payment 5 1 (Some (2023, 12, 5)), example_payment 6 3 (Some (2024, 3, 1)),
                       example_payment 7 1 (Some (2024, 2, 5)), example_payment 8 3 (Some (2022, 7, 9))],
      expense_table = [example_expense 1 1 (Some (2024, 1, 9)), example_expense 2 2 (Some (2024, 1, 10)),
                       example_expense 3 3 (Some (2024, 2, 1))],
      maintenance_request_table = [example_request 1 1 ''open'', example_request 2 1 ''completed'',
                                   example_request 3 2 ''open'']\<rparr>"

definition example_world :: "int option \<Rightarrow> world" where
  "example_world uid = \<lparr>db = example_db, sess = \<lparr>user_id = uid, dark_mode = None, flashes = []\<rparr>\<rparr>"

definition example_post :: "(string \<times> string) list \<Rightarrow> request" where
  "example_post kvs = \<lparr>req_method = POST, form = kvs, json_body = None, referrer = None\<rparr>"

definition example_json :: "json \<Rightarrow> request" where
  "example_json body = \<lparr>req_method = POST, form = [], json_body = Some body, referrer = None\<rparr>"

section \<open>Properties\<close>

subsection \<open>Evaluation of the examples\<close>

lemmas ex_defs = example_world_def example_db_def example_owner_def example_property_def
  example_tenant_def example_payment_def example_expense_def example_request_def example_env_def
  example_post_def example_json_def

lemmas route_defs = login_required_def current_user_def load_user_def owned_rows_def
  join_property_def order_by_desc_def owner_properties_def unauthorized_def flash_def

subsection \<open>Invariants of the store\<close>

text \<open>
  The uniqueness of the property table's primary key and of the owners' emails, which
  the database enforces, is kept by the handlers that write: a new row gets a key above
  all keys of its table, a registration with a known email or username stores nothing,
  and adding a tenant touches neither the property table nor the owner table.
\<close>

lemma fold_max_ge_start: "(i::int) \<le> fold max xs i"
proof (induction xs arbitrary: i)
  case Nil
  then show ?case by simp
next
  case (Cons x xs)
  have "i \<le> max x i" by simp
  also have "max x i \<le> fold max xs (max x i)" by (rule Cons.IH)
  finally show ?case by simp
qed

lemma fold_max_ge_member: "(x::int) \<in> set xs \<Longrightarrow> x \<le> fold max xs i"
proof (induction xs arbitrary: i)
  case Nil
  then show ?case by simp
next
  case (Cons y ys)
  show ?case
  proof (cases "x = y")
    case True
    have "x \<le> max y i" using True by simp
    also have "max y i \<le> fold max ys (max y i)" by (rule fold_max_ge_start)
    finally show ?thesis by simp
  next
    case False
    with Cons.prems have "x \<in> set ys" by simp
    then show ?thesis by (simp add: Cons.IH)
  qed
qed

lemma next_id_fresh: "next_id ids \<notin> set ids"
proof (cases ids)
  case Nil
  then show ?thesis by simp
next
  case (Cons i rest)
  have "x < next_id ids" if "x \<in> set ids" for x
  proof (cases "x = i")
    case True
    then show ?thesis using fold_max_ge_start [of i rest] Cons by (simp add: next_id_def)
  next
    case False
    with that Cons have "x \<in> set rest" by simp
    then show ?thesis using fold_max_ge_member [of x rest i] Cons by (simp add: next_id_def)
  qed
  then show ?thesis by blast
qed

lemma commit_property_keys:
  assumes "primary_keys_unique d" and "commit_property env row d = Inr d'"
  shows "primary_keys_unique d'"
  using assms next_id_fresh [of "map p_id (property_table d)"]
  by (auto simp: commit_property_def primary_keys_unique_def split: if_splits)

lemma finish_post_db:
  "db (snd (finish_post result message target w)) = (case result of Inl e \<Rightarrow> db w | Inr d \<Rightarrow> d)"
  by (simp add: finish_post_def flash_def split: sum.splits)

lemma login_required_db:
  assumes "\<And>u. P (db (snd (view u w)))" and "P (db w)"
  shows "P (db (snd (login_required view w)))"
  using assms by (simp add: login_required_def unauthorized_def flash_def split: option.splits)

lemma add_property_keeps_primary_keys_unique:
  assumes "primary_keys_unique (db w)"
  shows "primary_keys_unique (db (snd (add_property env req w)))"
  unfolding add_property_def
proof (rule login_required_db)
  fix u
  show "primary_keys_unique (db (snd (if req_method req = POST
          then finish_post (raising (new_property env req u) (\<lambda>row. commit_property env row (db w)))
                 ''Property added successfully!'' ''/properties'' w
          else (Render_template ''add_property.html'' No_context, w))))"
  proof (cases "raising (new_property env req u) (\<lambda>row. commit_property env row (db w))")
    case (Inl e)
    with assms show ?thesis by (simp add: finish_post_db)
  next
    case (Inr d')
    then obtain row where "commit_property env row (db w) = Inr d'"
      by (cases "new_property env req u") auto
    with assms have "primary_keys_unique d'" by (rule commit_property_keys)
    with assms Inr show ?thesis by (simp add: finish_post_db)
  qed
next
  show "primary_keys_unique (db w)" by (rule assms)
qed

lemma commit_owner_emails:
  assumes "emails_unique d" and "commit_owner env row d = Inr d'"
  shows "emails_unique d'"
  using assms
  by (auto simp: commit_owner_def emails_unique_def split: if_splits)

lemma register_keeps_emails_unique:
  assumes "emails_unique (db w)"
  shows "emails_unique (db (snd (register env req w)))"
proof -
  let ?res = "raising (case form_get req ''password'' of None \<Rightarrow> Inl AttributeError
                       | Some pw \<Rightarrow> Inr (generate_password_hash env pw))
                (\<lambda>hashed_password.
                   commit_owner env
                     \<lparr>o_id = 0, o_username = form_get req ''username'',
                      o_email = form_get req ''email'',
                      o_password_hash = Some hashed_password, o_phone = form_get req ''phone'',
                      o_created_at = None\<rparr> (db w))"
  have "emails_unique (case ?res of Inl e \<Rightarrow> db w | Inr d \<Rightarrow> d)"
  proof (cases ?res)
    case (Inl e)
    with assms show ?thesis by simp
  next
    case (Inr d')
    then obtain row where "commit_owner env row (db w) = Inr d'"
      by (cases "form_get req ''password''") auto
    with assms have "emails_unique d'" by (rule commit_owner_emails)
    with Inr show ?thesis by simp
  qed
  then show ?thesis
    using assms by (simp add: register_def Let_def finish_post_db flash_def)
qed

lemma commit_tenant_tables:
  "commit_tenant env row d = Inr d' \<Longrightarrow>
   property_table d' = property_table d \<and> owner_table d' = owner_table d"
  by (auto simp: commit_tenant_def split: if_splits)

lemma commit_payment_tables:
  "commit_payment env row d = Inr d' \<Longrightarrow>
   property_table d' = property_table d \<and> owner_table d' = owner_table d"
  by (auto simp: commit_payment_def split: if_splits)

lemma add_tenant_keeps_tables:
  "property_table (db (snd (add_tenant env req w))) = property_table (db w)
   \<and> owner_table (db (snd (add_tenant env req w))) = owner_table (db w)"
  unfolding add_tenant_def
proof (rule login_required_db)
  fix u
  let ?res = "raising (new_tenant env req) (\<lambda>row. commit_tenant env row (db w))"
  have "property_table (case ?res of Inl e \<Rightarrow> db w | Inr d \<Rightarrow> d) = property_table (db w)
        \<and> owner_table (case ?res of Inl e \<Rightarrow> db w | Inr d \<Rightarrow> d) = owner_table (db w)"
  proof (cases ?res)
    case (Inl e)
    then show ?thesis by simp
  next
    case (Inr d')
    then obtain row where "commit_tenant env row (db w) = Inr d'"
      by (cases "new_tenant env req") auto
    with Inr show ?thesis by (simp add: commit_tenant_tables)
  qed
  then show "property_table (db (snd (if req_method req = POST
          then finish_post ?res ''Tenant added successfully!'' ''/tenants'' w
          else (Render_template ''add_tenant.html''
                  (Properties_context (owner_properties (db w) (o_id u))), w))))
        = property_table (db w)
      \<and> owner_table (db (snd (if req_method req = POST
          then finish_post ?res ''Tenant added successfully!'' ''/tenants'' w
          else (Render_template ''add_tenant.html''
                  (Properties_context (owner_properties (db w) (o_id u))), w))))
        = owner_table (db w)"
    by (simp add: finish_post_db)
qed simp

subsection \<open>Queries scoped to the owner\<close>

lemma set_owned_rows:
  "set (owned_rows fk rows d uid) = {r \<in> set rows. owned_by d uid (fk r)}"
  by (auto simp: owned_rows_def join_property_def owned_by_def image_iff) blast

lemma owned_by_unique:
  assumes "primary_keys_unique d" and "owned_by d a fk" and "b \<noteq> a"
  shows "\<not> owned_by d b fk"
proof
  assume "owned_by d b fk"
  then obtain q where q: "q \<in> set (property_table d)" "fk = Some (p_id q)" "p_owner_id q = Some b"
    by (auto simp: owned_by_def)
  from assms(2) obtain p where p: "p \<in> set (property_table d)" "fk = Some (p_id p)" "p_owner_id p = Some a"
    by (auto simp: owned_by_def)
  have "inj_on p_id (set (property_table d))"
    using assms(1) by (simp add: primary_keys_unique_def distinct_map)
  with p q have "p = q" by (auto dest: inj_onD)
  with p q assms(3) show False by simp
qed

lemma set_order_by_desc: "set (order_by_desc key rows) = set rows"
  by (simp add: order_by_desc_def)

lemma length_order_by_desc: "length (order_by_desc key rows) = length rows"
  by (simp add: order_by_desc_def)

lemma sorted_desc_order_by_desc: "sorted_desc key (order_by_desc key rows)"
proof -
  have "sorted (map key (sort_key key (rev rows)))" by (rule sorted_sort_key)
  then have "sorted_wrt (\<lambda>a b. key a \<le> key b) (sort_key key (rev rows))"
    by (simp add: sorted_map)
  then show ?thesis
    by (simp add: sorted_desc_def order_by_desc_def sorted_wrt_rev)
qed

lemma sorted_desc_take: "sorted_desc key rows \<Longrightarrow> sorted_desc key (take n rows)"
  by (simp add: sorted_desc_def sorted_wrt_take)

lemma owned_rows_no_property:
  assumes "owner_properties d uid = []"
  shows "owned_rows fk rows d uid = []"
proof -
  have "\<not> owned_by d uid k" for k
  proof
    assume "owned_by d uid k"
    then obtain p where "p \<in> set (property_table d)" "p_owner_id p = Some uid"
      by (auto simp: owned_by_def)
    then have "p \<in> set (owner_properties d uid)" by (simp add: owner_properties_def)
    with assms show False by simp
  qed
  then have "set (owned_rows fk rows d uid) = {}" by (simp add: set_owned_rows)
  then show ?thesis by simp
qed

text \<open>
  C1. Let the owner \<open>a\<close> be authenticated and let \<open>b\<close> be the key of any other owner.
  Each list handler (properties, tenants, payments, expenses) renders its template with
  rows of its own table only, and every row it returns is owned by \<open>a\<close>: a property row
  has \<open>owner_id = a.id\<close>, and the Property that a tenant, payment or expense row
  references has \<open>owner_id = a.id\<close>. No returned row is owned by \<open>b\<close>. The store is
  the one of the database, where the primary key of the property table is unique.
\<close>

theorem list_operations_scoped:
  assumes "current_user w = Some a" and "primary_keys_unique (db w)" and "b \<noteq> o_id a"
  shows "(\<exists>rows. properties w = (Render_template ''properties.html'' (Properties_context rows), w)
            \<and> (\<forall>p \<in> set rows. p \<in> set (property_table (db w))
                  \<and> p_owner_id p = Some (o_id a) \<and> p_owner_id p \<noteq> Some b))
       \<and> (\<exists>rows. tenants w = (Render_template ''tenants.html'' (Tenants_context rows), w)
            \<and> (\<forall>t \<in> set rows. t \<in> set (tenant_table (db w))
                  \<and> owned_by (db w) (o_id a) (t_property_id t)
                  \<and> \<not> owned_by (db w) b (t_property_id t)))
       \<and> (\<exists>rows. payments w = (Render_template ''payments.html'' (Payments_context rows), w)
            \<and> (\<forall>r \<in> set rows. r \<in> set (payment_table (db w))
                  \<and> owned_by (db w) (o_id a) (pay_property_id r)
                  \<and> \<not> owned_by (db w) b (pay_property_id r)))
       \<and> (\<exists>rows. expenses w = (Render_template ''expenses.html'' (Expenses_context rows), w)
            \<and> (\<forall>e \<in> set rows. e \<in> set (expense_table (db w))
                  \<and> owned_by (db w) (o_id a) (e_property_id e)
                  \<and> \<not> owned_by (db w) b (e_property_id e)))"
proof -
  have u: "\<And>fk. owned_by (db w) (o_id a) fk \<Longrightarrow> \<not> owned_by (db w) b fk"
    using owned_by_unique [OF assms(2) _ assms(3)] by blast
  have 1: "\<exists>rows. properties w = (Render_template ''properties.html'' (Properties_context rows), w)
            \<and> (\<forall>p \<in> set rows. p \<in> set (property_table (db w))
                  \<and> p_owner_id p = Some (o_id a) \<and> p_owner_id p \<noteq> Some b)"
    using assms(1,3) by (simp add: properties_def login_required_def owner_properties_def)
  have 2: "\<exists>rows. tenants w = (Render_template ''tenants.html'' (Tenants_context rows), w)
            \<and> (\<forall>t \<in> set rows. t \<in> set (tenant_table (db w))
                  \<and> owned_by (db w) (o_id a) (t_property_id t)
                  \<and> \<not> owned_by (db w) b (t_property_id t))"
    using assms(1) u by (simp add: tenants_def login_required_def set_owned_rows)
  have 3: "\<exists>rows. payments w = (Render_template ''payments.html'' (Payments_context rows), w)
            \<and> (\<forall>r \<in> set rows. r \<in> set (payment_table (db w))
                  \<and> owned_by (db w) (o_id a) (pay_property_id r)
                  \<and> \<not> owned_by (db w) b (pay_property_id r))"
    using assms(1) u by (simp add: payments_def login_required_def set_owned_rows set_order_by_desc)
  have 4: "\<exists>rows. expenses w = (Render_template ''expenses.html'' (Expenses_context rows), w)
            \<and> (\<forall>e \<in> set rows. e \<in> set (expense_table (db w))
                  \<and> owned_by (db w) (o_id a) (e_property_id e)
                  \<and> \<not> owned_by (db w) b (e_property_id e))"
    using assms(1) u by (simp add: expenses_def login_required_def set_owned_rows set_order_by_desc)
  from 1 2 3 4 show ?thesis by blast
qed

theorem list_operations_scoped_witness:
  "current_user (example_world (Some 1)) = Some (example_owner 1 ''ann'')
   \<and> primary_keys_unique (db (example_world (Some 1)))
   \<and> (2::int) \<noteq> o_id (example_owner 1 ''ann'')
   \<and> (\<exists>rows. tenants (example_world (Some 1))
                 = (Render_template ''tenants.html'' (Tenants_context rows), example_world (Some 1))
          \<and> (\<forall>t \<in> set rows. owned_by (db (example_world (Some 1))) (o_id (example_owner 1 ''ann'')) (t_property_id t)
                \<and> \<not> owned_by (db (example_world (Some 1))) 2 (t_property_id t)))
   \<and> map t_id (owned_rows t_property_id (tenant_table example_db) example_db 1) = [1, 3]
   \<and> map t_id (owned_rows t_property_id (tenant_table example_db) example_db 2) = [2]"
proof -
  have h1: "current_user (example_world (Some 1)) = Some (example_owner 1 ''ann'')"
    by (simp add: current_user_def load_user_def ex_defs)
  have h2: "primary_keys_unique (db (example_world (Some 1)))"
    by (simp add: primary_keys_unique_def ex_defs)
  have h3: "(2::int) \<noteq> o_id (example_owner 1 ''ann'')"
    by (simp add: example_owner_def)
  have e1: "map t_id (owned_rows t_property_id (tenant_table example_db) example_db 1) = [1, 3]"
    by (simp add: owned_rows_def join_property_def ex_defs)
  have e2: "map t_id (owned_rows t_property_id (tenant_table example_db) example_db 2) = [2]"
    by (simp add: owned_rows_def join_property_def ex_defs)
  from list_operations_scoped [OF h1 h2 h3] h1 h2 h3 e1 e2 show ?thesis by blast
qed

subsection \<open>Dashboard\<close>

text \<open>
  C5. For an authenticated owner and any store, the dashboard's recent payments are at
  most 5 rows (exactly 5 when the owner has that many payments, all of them otherwise),
  sorted by \<open>payment_date\<close> in descending order, and each of them is a row of the
  payment table whose Property belongs to the owner.
\<close>

theorem dashboard_recent_payments:
  assumes "current_user w = Some u"
  shows "\<exists>stats. dashboard w = (Render_template ''dashboard.html'' (Dashboard_context stats), w)
           \<and> length (recent_payments stats) \<le> 5
           \<and> length (recent_payments stats)
               = min 5 (length (owned_rows pay_property_id (payment_table (db w)) (db w) (o_id u)))
           \<and> sorted_desc pay_payment_date (recent_payments stats)
           \<and> (\<forall>r \<in> set (recent_payments stats).
                 r \<in> set (payment_table (db w)) \<and> owned_by (db w) (o_id u) (pay_property_id r))"
proof -
  let ?rows = "order_by_desc pay_payment_date
                 (owned_rows pay_property_id (payment_table (db w)) (db w) (o_id u))"
  have s: "sorted_desc pay_payment_date (take 5 ?rows)"
    by (rule sorted_desc_take) (rule sorted_desc_order_by_desc)
  have m: "\<forall>r \<in> set (take 5 ?rows).
             r \<in> set (payment_table (db w)) \<and> owned_by (db w) (o_id u) (pay_property_id r)"
    using set_take_subset [of 5 ?rows] by (auto simp: set_order_by_desc set_owned_rows)
  have l: "length (take 5 ?rows) = min 5 (length (owned_rows pay_property_id (payment_table (db w)) (db w) (o_id u)))"
    by (simp add: length_order_by_desc min.commute)
  show ?thesis
    using assms s m l by (simp add: dashboard_def login_required_def Let_def)
qed

theorem dashboard_recent_payments_witness:
  "current_user (example_world (Some 1)) = Some (example_owner 1 ''ann'')
   \<and> (\<exists>stats. dashboard (example_world (Some 1))
                  = (Render_template ''dashboard.html'' (Dashboard_context stats), example_world (Some 1))
          \<and> length (recent_payments stats) \<le> 5
          \<and> sorted_desc pay_payment_date (recent_payments stats))
   \<and> map pay_id (owned_rows pay_property_id (payment_table example_db) example_db 1) = [1, 3, 4, 5, 6, 7, 8]
   \<and> map pay_id (take 5 (order_by_desc pay_payment_date
         (owned_rows pay_property_id (payment_table example_db) example_db 1))) = [6, 3, 7, 1, 5]"
proof -
  have h1: "current_user (example_world (Some 1)) = Some (example_owner 1 ''ann'')"
    by (simp add: current_user_def load_user_def ex_defs)
  have e: "map pay_id (owned_rows pay_property_id (payment_table example_db) example_db 1) = [1, 3, 4, 5, 6, 7, 8]"
    by (simp add: owned_rows_def join_property_def ex_defs)
  have t: "map pay_id (take 5 (order_by_desc pay_payment_date
         (owned_rows pay_property_id (payment_table example_db) example_db 1))) = [6, 3, 7, 1, 5]"
    by (simp add: owned_rows_def join_property_def order_by_desc_def ex_defs)
  from dashboard_recent_payments [OF h1] h1 e t show ?thesis by blast
qed

text \<open>
  C6. For an authenticated owner with no property, the dashboard renders
  \<open>total_properties = 0\<close>, \<open>monthly_income = 0\<close> (the number, from \<open>None or 0\<close>),
  \<open>active_tenants = 0\<close> and \<open>pending_maintenance = 0\<close>, whatever the other tables
  hold; the recent payments are empty and the world is unchanged.
\<close>

theorem dashboard_no_properties:
  assumes "current_user w = Some u" and "owner_properties (db w) (o_id u) = []"
  shows "dashboard w =
           (Render_template ''dashboard.html''
              (Dashboard_context \<lparr>total_properties = 0, active_tenants = 0, monthly_income = 0,
                 recent_payments = [], pending_maintenance = 0\<rparr>), w)"
  using assms
  by (simp add: dashboard_def login_required_def Let_def owned_rows_no_property
        order_by_desc_def func_sum_def or_0_def)

theorem dashboard_no_properties_witness:
  "current_user (example_world (Some 3)) = Some (example_owner 3 ''cy'')
   \<and> owner_properties (db (example_world (Some 3))) (o_id (example_owner 3 ''cy'')) = []
   \<and> dashboard (example_world (Some 3)) =
        (Render_template ''dashboard.html''
           (Dashboard_context \<lparr>total_properties = 0, active_tenants = 0, monthly_income = 0,
              recent_payments = [], pending_maintenance = 0\<rparr>), example_world (Some 3))"
proof -
  have h1: "current_user (example_world (Some 3)) = Some (example_owner 3 ''cy'')"
    by (simp add: current_user_def load_user_def ex_defs)
  have h2: "owner_properties (db (example_world (Some 3))) (o_id (example_owner 3 ''cy'')) = []"
    by (simp add: owner_properties_def ex_defs)
  from dashboard_no_properties [OF h1 h2] h1 h2 show ?thesis by blast
qed

subsection \<open>Registration\<close>

lemma count_unique_column:
  "distinct (map f xs) \<Longrightarrow> x \<in> set xs \<Longrightarrow> length (filter (\<lambda>y. f y = f x) xs) = 1"
proof (induction xs)
  case Nil
  then show ?case by simp
next
  case (Cons y ys)
  show ?case
  proof (cases "f y = f x")
    case True
    with Cons.prems have "\<forall>z \<in> set ys. f z \<noteq> f x" by (force simp: image_iff)
    then have "filter (\<lambda>z. f z = f x) ys = []" by (simp add: filter_empty_conv)
    with True show ?thesis by simp
  next
    case False
    with Cons show ?thesis by auto
  qed
qed

text \<open>
  C2. In a store that holds an owner with the email \<open>e\<close>, a registration POST with the
  email \<open>e\<close> is answered by the flash message 'Email already registered' (category
  danger) and a redirect to the registration form; the store is unchanged, so no owner
  row is added, and, the email column being unique, exactly one owner has the email
  \<open>e\<close> afterwards.
\<close>

theorem register_duplicate_email:
  assumes "req_method req = POST" and "form_get req ''email'' = Some e"
    and "\<exists>row \<in> set (owner_table (db w)). o_email row = Some e"
    and "emails_unique (db w)"
  shows "register env req w = (Redirect ''/register'', flash ''Email already registered'' ''danger'' w)
         \<and> db (snd (register env req w)) = db w
         \<and> length (filter (\<lambda>row. o_email row = Some e) (owner_table (db (snd (register env req w))))) = 1"
proof -
  have f: "find (\<lambda>row. o_email row = Some e) (owner_table (db w)) \<noteq> None"
    using assms(3) by (auto simp: find_None_iff)
  have r: "register env req w = (Redirect ''/register'', flash ''Email already registered'' ''danger'' w)"
    using assms(1,2) f by (simp add: register_def)
  from assms(3) obtain row where row: "row \<in> set (owner_table (db w))" "o_email row = Some e"
    by blast
  have "length (filter (\<lambda>y. o_email y = o_email row) (owner_table (db w))) = 1"
    using assms(4) row(1) unfolding emails_unique_def by (rule count_unique_column)
  with row(2) have c: "length (filter (\<lambda>y. o_email y = Some e) (owner_table (db w))) = 1"
    by simp
  show ?thesis using r c by (simp add: flash_def)
qed

theorem register_duplicate_email_witness:
  "req_method (example_post [(''username'', ''ann2''), (''email'', ''ann@example.org''), (''password'', ''pw'')]) = POST
   \<and> form_get (example_post [(''username'', ''ann2''), (''email'', ''ann@example.org''), (''password'', ''pw'')]) ''email''
        = Some ''ann@example.org''
   \<and> (\<exists>row \<in> set (owner_table (db (example_world None))). o_email row = Some ''ann@example.org'')
   \<and> emails_unique (db (example_world None))
   \<and> register example_env (example_post [(''username'', ''ann2''), (''email'', ''ann@example.org''), (''password'', ''pw'')])
        (example_world None)
       = (Redirect ''/register'', flash ''Email already registered'' ''danger'' (example_world None))"
proof -
  let ?req = "example_post [(''username'', ''ann2''), (''email'', ''ann@example.org''), (''password'', ''pw'')]"
  have h1: "req_method ?req = POST" by (simp add: example_post_def)
  have h2: "form_get ?req ''email'' = Some ''ann@example.org''"
    by (simp add: example_post_def form_get_def)
  have h3: "\<exists>row \<in> set (owner_table (db (example_world None))). o_email row = Some ''ann@example.org''"
    by (simp add: ex_defs)
  have h4: "emails_unique (db (example_world None))"
    by (simp add: emails_unique_def ex_defs)
  from register_duplicate_email [OF h1 h2 h3 h4, of example_env] h1 h2 h3 h4 show ?thesis by blast
qed

subsection \<open>Adding a property\<close>

lemma new_property_bad_rent:
  assumes "form_get req ''monthly_rent'' = Some s" and "float_of_str env s = None"
  shows "new_property env req u = Inl ValueError"
  using assms
  by (auto simp: new_property_def form_get_default0_def split: option.splits)

text \<open>
  C3, as amended. For an authenticated owner, a POST to /add_property whose
  \<open>monthly_rent\<close> is a string that \<open>float\<close> rejects ends in an uncaught ValueError:
  the answer is the failure page, not the form; nothing is flashed and no Property
  row is created (the world is the one before the request).
\<close>

theorem add_property_non_numeric_rent:
  assumes "current_user w = Some u" and "req_method req = POST"
    and "form_get req ''monthly_rent'' = Some s" and "float_of_str env s = None"
  shows "add_property env req w = (Unhandled ValueError, w)"
  using assms(1,2) new_property_bad_rent [OF assms(3,4)]
  by (simp add: add_property_def login_required_def finish_post_def)

theorem add_property_non_numeric_rent_witness:
  "current_user (example_world (Some 1)) = Some (example_owner 1 ''ann'')
   \<and> req_method (example_post [(''name'', ''Loft''), (''monthly_rent'', ''abc'')]) = POST
   \<and> form_get (example_post [(''name'', ''Loft''), (''monthly_rent'', ''abc'')]) ''monthly_rent'' = Some ''abc''
   \<and> float_of_str example_env ''abc'' = None
   \<and> add_property example_env (example_post [(''name'', ''Loft''), (''monthly_rent'', ''abc'')])
        (example_world (Some 1)) = (Unhandled ValueError, example_world (Some 1))"
proof -
  let ?req = "example_post [(''name'', ''Loft''), (''monthly_rent'', ''abc'')]"
  have h1: "current_user (example_world (Some 1)) = Some (example_owner 1 ''ann'')"
    by (simp add: current_user_def load_user_def ex_defs)
  have h2: "req_method ?req = POST" by (simp add: example_post_def)
  have h3: "form_get ?req ''monthly_rent'' = Some ''abc''"
    by (simp add: example_post_def form_get_def)
  have h4: "float_of_str example_env ''abc'' = None" by (simp add: example_env_def)
  from add_property_non_numeric_rent [OF h1 h2 h3 h4] h1 h2 h3 h4 show ?thesis by blast
qed

text \<open>
  C3 as stated fails: with \<open>monthly_rent = abc\<close> the handler answers with the
  failure page of the ValueError, does not render the form again, and flashes nothing.
\<close>

theorem add_property_non_numeric_rent_counterexample:
  "fst (add_property example_env (example_post [(''name'', ''Loft''), (''monthly_rent'', ''abc'')])
          (example_world (Some 1))) = Unhandled ValueError
   \<and> fst (add_property example_env (example_post [(''name'', ''Loft''), (''monthly_rent'', ''abc'')])
          (example_world (Some 1))) \<noteq> Render_template ''add_property.html'' No_context
   \<and> flashes (sess (snd (add_property example_env
          (example_post [(''name'', ''Loft''), (''monthly_rent'', ''abc'')]) (example_world (Some 1))))) = []"
  by (simp add: add_property_def new_property_def finish_post_def form_get_default0_def form_get_def
        route_defs ex_defs)

lemma py_float_absent_or:
  "absent_or_float env req k \<Longrightarrow>
   \<exists>x. py_float env (form_get_default0 req k) = Inr x \<and> (form_get req k = None \<longrightarrow> x = 0)"
  by (auto simp: absent_or_float_def form_get_default0_def split: option.splits)

lemma py_int_absent_or:
  "absent_or_int env req k \<Longrightarrow>
   \<exists>n. py_int env (form_get_default0 req k) = Inr n \<and> (form_get req k = None \<longrightarrow> n = 0)
       \<and> binds (Some n)"
  by (auto simp: absent_or_int_def form_get_default0_def binds_def sqlite_integer_def
        split: option.splits)

lemma commit_property_overflow:
  "\<not> binds (p_bedrooms row) \<or> \<not> binds (p_bathrooms row) \<Longrightarrow>
   commit_property env row d = Inl OverflowError"
  by (auto simp: commit_property_def)

text \<open>
  An integer that \<open>int\<close> accepts and the column cannot hold: with
  \<open>bedrooms = 9223372036854775808\<close> the INSERT raises OverflowError, nothing is stored
  and the answer is the failure page.
\<close>

lemma add_property_bedrooms_overflow_example:
  "add_property example_env
     (example_post [(''name'', ''Loft''), (''bedrooms'', ''9223372036854775808'')])
     (example_world (Some 1)) = (Unhandled OverflowError, example_world (Some 1))"
  by (simp add: add_property_def new_property_def commit_property_def binds_def
        sqlite_integer_def finish_post_def form_get_default0_def form_get_def route_defs ex_defs)

text \<open>
  C9. For an authenticated owner, take a POST to /add_property in which some of
  \<open>bedrooms\<close>, \<open>bathrooms\<close>, \<open>area_sqft\<close> and \<open>monthly_rent\<close> are absent, and which
  is otherwise accepted: it carries a name, and each of the four fields that is present
  is a string its conversion accepts (for \<open>bedrooms\<close> and \<open>bathrooms\<close> a value the
  Integer column holds, a signed 64-bit integer). The request does not fail: one
  Property row of the owner is appended, the success message is flashed, the browser is
  redirected to the list, and every one of the four fields that is absent is stored as 0.
\<close>

theorem add_property_absent_fields_default_0:
  assumes "current_user w = Some u" and "req_method req = POST"
    and "form_get req ''name'' = Some n"
    and "absent_or_int env req ''bedrooms''" and "absent_or_int env req ''bathrooms''"
    and "absent_or_float env req ''area_sqft''" and "absent_or_float env req ''monthly_rent''"
  shows "\<exists>row. add_property env req w =
           (Redirect ''/properties'',
            flash ''Property added successfully!'' ''success''
              (w\<lparr>db := (db w)\<lparr>property_table := property_table (db w) @ [row]\<rparr>\<rparr>))
         \<and> p_owner_id row = Some (o_id u) \<and> p_name row = Some n
         \<and> (form_get req ''bedrooms'' = None \<longrightarrow> p_bedrooms row = Some 0)
         \<and> (form_get req ''bathrooms'' = None \<longrightarrow> p_bathrooms row = Some 0)
         \<and> (form_get req ''area_sqft'' = None \<longrightarrow> p_area_sqft row = Some 0)
         \<and> (form_get req ''monthly_rent'' = None \<longrightarrow> p_monthly_rent row = Some 0)"
proof -
  from py_int_absent_or [OF assms(4)] obtain b1
    where b1: "py_int env (form_get_default0 req ''bedrooms'') = Inr b1
                 \<and> (form_get req ''bedrooms'' = None \<longrightarrow> b1 = 0) \<and> binds (Some b1)" ..
  from py_int_absent_or [OF assms(5)] obtain b2
    where b2: "py_int env (form_get_default0 req ''bathrooms'') = Inr b2
                 \<and> (form_get req ''bathrooms'' = None \<longrightarrow> b2 = 0) \<and> binds (Some b2)" ..
  from py_float_absent_or [OF assms(6)] obtain a
    where a: "py_float env (form_get_default0 req ''area_sqft'') = Inr a
                 \<and> (form_get req ''area_sqft'' = None \<longrightarrow> a = 0)" ..
  from py_float_absent_or [OF assms(7)] obtain r
    where r: "py_float env (form_get_default0 req ''monthly_rent'') = Inr r
                 \<and> (form_get req ''monthly_rent'' = None \<longrightarrow> r = 0)" ..
  have np: "new_property env req u =
      Inr \<lparr>p_id = 0, p_name = Some n, p_address = form_get req ''address'',
           p_property_type = form_get req ''property_type'',
           p_bedrooms = Some b1, p_bathrooms = Some b2, p_area_sqft = Some a,
           p_monthly_rent = Some r, p_owner_id = Some (o_id u), p_created_at = None\<rparr>"
    using assms(3) b1 b2 a r by (simp add: new_property_def)
  let ?row = "\<lparr>p_id = next_id (map p_id (property_table (db w))), p_name = Some n,
           p_address = form_get req ''address'',
           p_property_type = form_get req ''property_type'',
           p_bedrooms = Some b1, p_bathrooms = Some b2, p_area_sqft = Some a,
           p_monthly_rent = Some r, p_owner_id = Some (o_id u),
           p_created_at = Some (utcnow env)\<rparr>"
  have res: "add_property env req w =
           (Redirect ''/properties'',
            flash ''Property added successfully!'' ''success''
              (w\<lparr>db := (db w)\<lparr>property_table := property_table (db w) @ [?row]\<rparr>\<rparr>))"
    using assms(1,2) b1 b2
    by (simp add: add_property_def login_required_def np commit_property_def default_to_def finish_post_def)
  show ?thesis
    using b1 b2 a r by (intro exI [of _ ?row]) (simp add: res)
qed

theorem add_property_absent_fields_default_0_witness:
  "current_user (example_world (Some 1)) = Some (example_owner 1 ''ann'')
   \<and> form_get (example_post [(''name'', ''Loft'')]) ''bedrooms'' = None
   \<and> form_get (example_post [(''name'', ''Loft'')]) ''bathrooms'' = None
   \<and> form_get (example_post [(''name'', ''Loft'')]) ''area_sqft'' = None
   \<and> form_get (example_post [(''name'', ''Loft'')]) ''monthly_rent'' = None
   \<and> (\<exists>row. add_property example_env (example_post [(''name'', ''Loft'')]) (example_world (Some 1)) =
           (Redirect ''/properties'',
            flash ''Property added successfully!'' ''success''
              ((example_world (Some 1))\<lparr>db := (db (example_world (Some 1)))
                 \<lparr>property_table := property_table (db (example_world (Some 1))) @ [row]\<rparr>\<rparr>))
         \<and> p_bedrooms row = Some 0 \<and> p_bathrooms row = Some 0
         \<and> p_area_sqft row = Some 0 \<and> p_monthly_rent row = Some 0)"
proof -
  let ?req = "example_post [(''name'', ''Loft'')]"
  have h1: "current_user (example_world (Some 1)) = Some (example_owner 1 ''ann'')"
    by (simp add: current_user_def load_user_def ex_defs)
  have h2: "req_method ?req = POST" by (simp add: example_post_def)
  have h3: "form_get ?req ''name'' = Some ''Loft''" by (simp add: example_post_def form_get_def)
  have a1: "form_get ?req ''bedrooms'' = None" by (simp add: example_post_def form_get_def)
  have a2: "form_get ?req ''bathrooms'' = None" by (simp add: example_post_def form_get_def)
  have a3: "form_get ?req ''area_sqft'' = None" by (simp add: example_post_def form_get_def)
  have a4: "form_get ?req ''monthly_rent'' = None" by (simp add: example_post_def form_get_def)
  have h4: "absent_or_int example_env ?req ''bedrooms''" by (simp add: absent_or_int_def a1)
  have h5: "absent_or_int example_env ?req ''bathrooms''" by (simp add: absent_or_int_def a2)
  have h6: "absent_or_float example_env ?req ''area_sqft''" by (simp add: absent_or_float_def a3)
  have h7: "absent_or_float example_env ?req ''monthly_rent''" by (simp add: absent_or_float_def a4)
  from add_property_absent_fields_default_0 [OF h1 h2 h3 h4 h5 h6 h7] h1 a1 a2 a3 a4
  show ?thesis by blast
qed

subsection \<open>Adding a tenant\<close>

lemma commit_tenant_overflow:
  "\<not> binds (t_property_id row) \<Longrightarrow> commit_tenant env row d = Inl OverflowError"
  by (simp add: commit_tenant_def)

text \<open>
  C4. Let the owner be authenticated and let \<open>P\<close> be any property id, that is any value
  of the Integer column (a signed 64-bit integer). Take a POST to /add_tenant whose
  \<open>property_id\<close> converts to \<open>P\<close> and whose other fields are accepted: name and phone
  present, both lease dates in the format \<open>%Y-%m-%d\<close>, the deposit absent or numeric.
  It stores one new Tenant with \<open>property_id = P\<close>, flashes the success message and
  redirects to the list. Nothing is assumed about the property table: the handler never
  reads it, and \<open>P\<close> may be the key of a Property of another owner, or of no Property
  at all.
\<close>

theorem add_tenant_any_property_id:
  assumes "current_user w = Some u" and "req_method req = POST"
    and "form_get req ''name'' = Some n" and "form_get req ''phone'' = Some ph"
    and "form_get req ''lease_start'' = Some s1" and "strptime_date env s1 = Some d1"
    and "form_get req ''lease_end'' = Some s2" and "strptime_date env s2 = Some d2"
    and "absent_or_float env req ''security_deposit''"
    and "form_get req ''property_id'' = Some sp" and "int_of_str env sp = Some P"
    and "sqlite_integer P"
  shows "\<exists>row. add_tenant env req w =
           (Redirect ''/tenants'',
            flash ''Tenant added successfully!'' ''success''
              (w\<lparr>db := (db w)\<lparr>tenant_table := tenant_table (db w) @ [row]\<rparr>\<rparr>))
         \<and> t_property_id row = Some P
         \<and> t_name row = Some n \<and> t_phone row = Some ph
         \<and> t_lease_start row = Some d1 \<and> t_lease_end row = Some d2
         \<and> t_is_active row = Some True"
proof -
  from py_float_absent_or [OF assms(9)] obtain x
    where x: "py_float env (form_get_default0 req ''security_deposit'') = Inr x" by blast
  have nt: "new_tenant env req =
      Inr \<lparr>t_id = 0, t_name = Some n, t_email = form_get req ''email'',
           t_phone = Some ph, t_whatsapp_number = form_get req ''whatsapp_number'',
           t_lease_start = Some d1, t_lease_end = Some d2, t_security_deposit = Some x,
           t_property_id = Some P, t_is_active = None, t_created_at = None\<rparr>"
    using assms(3-8,10,11) x by (simp add: new_tenant_def form_get_none_def)
  let ?row = "\<lparr>t_id = next_id (map t_id (tenant_table (db w))), t_name = Some n,
           t_email = form_get req ''email'', t_phone = Some ph,
           t_whatsapp_number = form_get req ''whatsapp_number'',
           t_lease_start = Some d1, t_lease_end = Some d2, t_security_deposit = Some x,
           t_property_id = Some P, t_is_active = Some True, t_created_at = Some (utcnow env)\<rparr>"
  have res: "add_tenant env req w =
           (Redirect ''/tenants'',
            flash ''Tenant added successfully!'' ''success''
              (w\<lparr>db := (db w)\<lparr>tenant_table := tenant_table (db w) @ [?row]\<rparr>\<rparr>))"
    using assms(1,2,12)
    by (simp add: add_tenant_def login_required_def nt commit_tenant_def binds_def default_to_def
          finish_post_def)
  show ?thesis
    by (rule exI [of _ ?row]) (simp add: res)
qed

theorem add_tenant_any_property_id_witness:
  "current_user (example_world (Some 1)) = Some (example_owner 1 ''ann'')
   \<and> \<not> owned_by (db (example_world (Some 1))) 1 (Some 2)
   \<and> owned_by (db (example_world (Some 1))) 2 (Some 2)
   \<and> int_of_str example_env ''2'' = Some 2
   \<and> sqlite_integer 2
   \<and> (\<exists>row. add_tenant example_env
         (example_post [(''name'', ''Eve''), (''phone'', ''555''), (''lease_start'', ''2024-01-01''),
                        (''lease_end'', ''2024-12-31''), (''property_id'', ''2'')])
         (example_world (Some 1)) =
           (Redirect ''/tenants'',
            flash ''Tenant added successfully!'' ''success''
              ((example_world (Some 1))\<lparr>db := (db (example_world (Some 1)))
                 \<lparr>tenant_table := tenant_table (db (example_world (Some 1))) @ [row]\<rparr>\<rparr>))
         \<and> t_property_id row = Some 2)"
proof -
  let ?req = "example_post [(''name'', ''Eve''), (''phone'', ''555''), (''lease_start'', ''2024-01-01''),
                        (''lease_end'', ''2024-12-31''), (''property_id'', ''2'')]"
  have h1: "current_user (example_world (Some 1)) = Some (example_owner 1 ''ann'')"
    by (simp add: current_user_def load_user_def ex_defs)
  have h2: "req_method ?req = POST" by (simp add: example_post_def)
  have h3: "form_get ?req ''name'' = Some ''Eve''" by (simp add: example_post_def form_get_def)
  have h4: "form_get ?req ''phone'' = Some ''555''" by (simp add: example_post_def form_get_def)
  have h5: "form_get ?req ''lease_start'' = Some ''2024-01-01''"
    by (simp add: example_post_def form_get_def)
  have h6: "strptime_date example_env ''2024-01-01'' = Some (2024, 1, 1)"
    by (simp add: example_env_def)
  have h7: "form_get ?req ''lease_end'' = Some ''2024-12-31''"
    by (simp add: example_post_def form_get_def)
  have h8: "strptime_date example_env ''2024-12-31'' = Some (2024, 12, 31)"
    by (simp add: example_env_def)
  have h9: "absent_or_float example_env ?req ''security_deposit''"
    by (simp add: absent_or_float_def example_post_def form_get_def)
  have h10: "form_get ?req ''property_id'' = Some ''2''"
    by (simp add: example_post_def form_get_def)
  have h11: "int_of_str example_env ''2'' = Some 2" by (simp add: example_env_def)
  have o1: "\<not> owned_by (db (example_world (Some 1))) 1 (Some 2)"
    by (simp add: owned_by_def ex_defs)
  have o2: "owned_by (db (example_world (Some 1))) 2 (Some 2)"
    by (simp add: owned_by_def ex_defs)
  have h12: "sqlite_integer 2" by (simp add: sqlite_integer_def)
  from add_tenant_any_property_id [OF h1 h2 h3 h4 h5 h6 h7 h8 h9 h10 h11 h12] h1 h11 h12 o1 o2
  show ?thesis by blast
qed

subsection \<open>Session\<close>

lemma logout_user_idem: "logout_user (logout_user w) = logout_user w"
  by (simp add: logout_user_def)

lemma current_user_logout_user: "current_user (logout_user w) = None"
  by (simp add: logout_user_def current_user_def split: option.splits)

lemma current_user_flash: "current_user (flash m c w) = current_user w"
  by (simp add: flash_def current_user_def split: option.splits)

lemma current_user_after_logout: "current_user (snd (logout w)) = None"
  by (cases "current_user w")
     (simp_all add: logout_def login_required_def unauthorized_def current_user_flash current_user_logout_user)

text \<open>
  C8, as amended. The logout route invalidates the session: for an authenticated user it
  runs \<open>logout_user\<close>, which removes the identity, and redirects to the index; after
  the route nobody is authenticated. \<open>logout_user\<close> itself is idempotent. The route is
  guarded by \<open>login_required\<close>, so a second request on the invalidated session does not
  run the logout again: it is answered as unauthorized, with the login message flashed
  and a redirect to the login page. The session stays invalid; store, identity and
  dark mode are as after the first request.
\<close>

theorem logout_invalidates_session:
  "(current_user w \<noteq> None \<longrightarrow>
      logout w = (Redirect ''/'', logout_user w) \<and> user_id (sess (snd (logout w))) = None)
   \<and> current_user (snd (logout w)) = None
   \<and> logout_user (logout_user w) = logout_user w
   \<and> logout (snd (logout w)) =
       (Redirect ''/login'', flash ''Please log in to access this page.'' ''message'' (snd (logout w)))
   \<and> current_user (snd (logout (snd (logout w)))) = None
   \<and> db (snd (logout (snd (logout w)))) = db (snd (logout w))
   \<and> user_id (sess (snd (logout (snd (logout w))))) = user_id (sess (snd (logout w)))
   \<and> dark_mode (sess (snd (logout (snd (logout w))))) = dark_mode (sess (snd (logout w)))"
proof -
  have f: "current_user w \<noteq> None \<longrightarrow>
      logout w = (Redirect ''/'', logout_user w) \<and> user_id (sess (snd (logout w))) = None"
    by (auto simp: logout_def login_required_def logout_user_def)
  have a: "current_user (snd (logout w)) = None" by (rule current_user_after_logout)
  have b: "logout (snd (logout w)) =
       (Redirect ''/login'', flash ''Please log in to access this page.'' ''message'' (snd (logout w)))"
    using a by (simp add: logout_def login_required_def unauthorized_def)
  have c: "current_user (snd (logout (snd (logout w)))) = None"
    by (rule current_user_after_logout)
  have i: "logout_user (logout_user w) = logout_user w" by (rule logout_user_idem)
  have d: "db (snd (logout (snd (logout w)))) = db (snd (logout w))"
    "user_id (sess (snd (logout (snd (logout w))))) = user_id (sess (snd (logout w)))"
    "dark_mode (sess (snd (logout (snd (logout w))))) = dark_mode (sess (snd (logout w)))"
    by (simp_all add: b flash_def)
  from f a i b c d show ?thesis by blast
qed

theorem logout_invalidates_session_witness:
  "current_user (example_world (Some 1)) \<noteq> None
   \<and> logout (example_world (Some 1)) = (Redirect ''/'', example_world None)
   \<and> current_user (snd (logout (example_world (Some 1)))) = None
   \<and> current_user (snd (logout (snd (logout (example_world (Some 1)))))) = None"
proof -
  have h1: "current_user (example_world (Some 1)) \<noteq> None"
    by (simp add: current_user_def load_user_def ex_defs)
  have h2: "logout_user (example_world (Some 1)) = example_world None"
    by (simp add: logout_user_def example_world_def)
  from logout_invalidates_session [of "example_world (Some 1)"] h1
  have "logout (example_world (Some 1)) = (Redirect ''/'', logout_user (example_world (Some 1)))"
    and "current_user (snd (logout (example_world (Some 1)))) = None"
    and "current_user (snd (logout (snd (logout (example_world (Some 1)))))) = None"
    by blast+
  with h1 h2 show ?thesis by simp
qed

text \<open>
  C8 as stated fails: the second request to the route does not have the outcome of the
  first. With ann logged in, the first request redirects to the index and flashes nothing;
  the second redirects to the login page and flashes the login message, so the session
  after two requests is not the session after one.
\<close>

theorem logout_twice_counterexample:
  "fst (logout (example_world (Some 1))) = Redirect ''/''
   \<and> flashes (sess (snd (logout (example_world (Some 1))))) = []
   \<and> fst (logout (snd (logout (example_world (Some 1))))) = Redirect ''/login''
   \<and> flashes (sess (snd (logout (snd (logout (example_world (Some 1)))))))
       = [(''message'', ''Please log in to access this page.'')]
   \<and> snd (logout (snd (logout (example_world (Some 1))))) \<noteq> snd (logout (example_world (Some 1)))"
  by (simp add: logout_def logout_user_def route_defs ex_defs)

text \<open>
  C10. One toggle negates the dark mode that the templates see, two toggles restore
  it. An absent flag reads as false. When the flag is present, two toggles give back
  the very same world; in every case the store, the identity and the flash queue are
  untouched.
\<close>

theorem toggle_twice:
  "inject_theme (snd (toggle_dark_mode r1 w)) = (\<not> inject_theme w)
   \<and> inject_theme (snd (toggle_dark_mode r2 (snd (toggle_dark_mode r1 w)))) = inject_theme w
   \<and> (dark_mode (sess w) = None \<longrightarrow> inject_theme w = False)
   \<and> (dark_mode (sess w) \<noteq> None \<longrightarrow> snd (toggle_dark_mode r2 (snd (toggle_dark_mode r1 w))) = w)
   \<and> db (snd (toggle_dark_mode r1 w)) = db w
   \<and> user_id (sess (snd (toggle_dark_mode r1 w))) = user_id (sess w)
   \<and> flashes (sess (snd (toggle_dark_mode r1 w))) = flashes (sess w)"
  by (auto simp: toggle_dark_mode_def inject_theme_def Let_def split: option.splits)

theorem toggle_twice_witness:
  "dark_mode (sess (example_world None)) = None
   \<and> inject_theme (example_world None) = False
   \<and> inject_theme (snd (toggle_dark_mode (example_post []) (example_world None))) = True
   \<and> inject_theme (snd (toggle_dark_mode (example_post [])
        (snd (toggle_dark_mode (example_post []) (example_world None))))) = False"
proof -
  have h1: "dark_mode (sess (example_world None)) = None" by (simp add: example_world_def)
  from toggle_twice [of "example_post []" "example_world None" "example_post []"] h1
  show ?thesis by simp
qed

subsection \<open>Reminder stub\<close>

text \<open>
  C7, as amended. For an authenticated request, /api/send_whatsapp_reminder never changes
  the store or the session, whatever the body; when the JSON body is an object, with or
  without a \<open>tenant_id\<close> and whatever tenant it names, the answer is the success
  acknowledgement.
\<close>

theorem send_whatsapp_reminder_object_body:
  assumes "current_user w = Some u"
  shows "snd (send_whatsapp_reminder req w) = w
         \<and> (\<forall>kvs. json_body req = Some (JDict kvs) \<longrightarrow>
               send_whatsapp_reminder req w =
                 (Jsonify [(''status'', ''success''), (''message'', ''WhatsApp reminder sent'')], w))"
proof (cases "json_body req")
  case None
  with assms show ?thesis by (simp add: send_whatsapp_reminder_def login_required_def)
next
  case (Some body)
  with assms show ?thesis
    by (cases body) (simp_all add: send_whatsapp_reminder_def login_required_def)
qed

theorem send_whatsapp_reminder_object_body_witness:
  "current_user (example_world (Some 1)) = Some (example_owner 1 ''ann'')
   \<and> json_body (example_json (JDict [(''tenant_id'', JInt 2), (''message'', JStr ''rent is due'')]))
       = Some (JDict [(''tenant_id'', JInt 2), (''message'', JStr ''rent is due'')])
   \<and> send_whatsapp_reminder (example_json (JDict [(''tenant_id'', JInt 2), (''message'', JStr ''rent is due'')]))
        (example_world (Some 1)) =
         (Jsonify [(''status'', ''success''), (''message'', ''WhatsApp reminder sent'')], example_world (Some 1))"
proof -
  have h1: "current_user (example_world (Some 1)) = Some (example_owner 1 ''ann'')"
    by (simp add: current_user_def load_user_def ex_defs)
  have h2: "json_body (example_json (JDict [(''tenant_id'', JInt 2), (''message'', JStr ''rent is due'')]))
       = Some (JDict [(''tenant_id'', JInt 2), (''message'', JStr ''rent is due'')])"
    by (simp add: example_json_def)
  from send_whatsapp_reminder_object_body [OF h1] h1 h2 show ?thesis by blast
qed

text \<open>
  C7 as stated fails for a JSON body that is not an object: on the JSON array \<open>[]\<close>
  the call \<open>request.json.get\<close> raises AttributeError and the answer is the failure
  page, not the acknowledgement.
\<close>

theorem send_whatsapp_reminder_counterexample:
  "current_user (example_world (Some 1)) = Some (example_owner 1 ''ann'')
   \<and> fst (send_whatsapp_reminder (example_json (JList [])) (example_world (Some 1)))
       = Unhandled AttributeError
   \<and> fst (send_whatsapp_reminder (example_json (JList [])) (example_world (Some 1)))
       \<noteq> Jsonify [(''status'', ''success''), (''message'', ''WhatsApp reminder sent'')]"
  by (simp add: send_whatsapp_reminder_def login_required_def current_user_def load_user_def ex_defs)

end
